theory Spec2Isabelle
  imports Main
begin

section \<open>The image gallery of script.js\<close>

text \<open>
  The gallery is the function \<open>createImageGallery\<close> of \<^verbatim>\<open>src/script.js\<close> (section 8 of
  that file; \<^verbatim>\<open>src/unnamed/part_001\<close> holds the same text) and an older variant without
  captions in \<^verbatim>\<open>src/unnamed/part_000\<close>. The function reads five things below a container
  element, keeps one integer \<open>currentIndex\<close> in its closure and mutates the class lists
  and text contents of the elements it found. The model keeps exactly that: the
  elements as a record, the closure as a record around it, every mutation as an update
  of the record, and the one exception JavaScript can raise here (\<open>TypeError\<close>, from a
  property access on \<open>null\<close> or \<open>undefined\<close>) as a value next to the state the
  statements before the throw left behind.
\<close>

subsection \<open>Elements\<close>

text \<open>
  An element's \<open>classList\<close> is a DOMTokenList: an ordered set of tokens. \<open>contains\<close>,
  \<open>add\<close>, \<open>remove\<close> and \<open>toggle(token, force)\<close> are the four methods the source calls.
\<close>

type_synonym classList = "string list"

definition classList_contains :: "classList \<Rightarrow> string \<Rightarrow> bool" where
  "classList_contains cl t = (t \<in> set cl)"

definition classList_add :: "classList \<Rightarrow> string \<Rightarrow> classList" where
  "classList_add cl t = (if t \<in> set cl then cl else cl @ [t])"

definition classList_remove :: "classList \<Rightarrow> string \<Rightarrow> classList" where
  "classList_remove cl t = removeAll t cl"

definition classList_toggle :: "classList \<Rightarrow> string \<Rightarrow> bool \<Rightarrow> classList" where
  "classList_toggle cl t force = (if force then classList_add cl t else classList_remove cl t)"

text \<open>
  The two closures that \<open>createImageGallery\<close> registers with \<open>addEventListener\<close>.
\<close>

datatype listener = PrevListener | NextListener

text \<open>
  What the queries of lines 356 to 360 return, as the container holds it:
  \<open>images\<close> is the class list of every \<^verbatim>\<open>.gallery-img\<close> element in document order
  (\<open>querySelectorAll\<close> returns distinct elements, so a position in the list is an
  element); a button is \<open>None\<close> when \<open>querySelector\<close> returns \<open>null\<close> and otherwise
  the list of click listeners attached to it; the counter \<^verbatim>\<open>#gallery-index\<close> and the
  caption \<^verbatim>\<open>.gallery-caption\<close> are \<open>None\<close> when absent and otherwise their
  \<open>textContent\<close>.
\<close>

record container =
  images :: "classList list"
  prevBtn :: "listener list option"
  nextBtn :: "listener list option"
  galleryIndexEl :: "string option"
  galleryCaption :: "string option"

text \<open>The closure of an activated gallery: the elements it holds and \<open>currentIndex\<close>.\<close>

record gallery =
  els :: container
  currentIndex :: int

datatype error = TypeError

subsection \<open>JavaScript primitives the gallery uses\<close>

text \<open>\<open>xs[i]\<close> on an array: \<open>undefined\<close> (here \<open>None\<close>) outside \<open>0 .. length - 1\<close>.\<close>

definition array_get :: "'a list \<Rightarrow> int \<Rightarrow> 'a option" where
  "array_get xs i = (if 0 \<le> i \<and> i < int (length xs) then Some (xs ! nat i) else None)"

text \<open>\<open>Array.prototype.findIndex\<close>: the first index whose element passes, or \<open>-1\<close>.\<close>

fun findIndex_from :: "int \<Rightarrow> ('a \<Rightarrow> bool) \<Rightarrow> 'a list \<Rightarrow> int" where
  "findIndex_from k P [] = - 1"
| "findIndex_from k P (x # xs) = (if P x then k else findIndex_from (k + 1) P xs)"

definition findIndex :: "('a \<Rightarrow> bool) \<Rightarrow> 'a list \<Rightarrow> int" where
  "findIndex P xs = findIndex_from 0 P xs"

text \<open>
  A number inside a template literal is written in decimal. The indices of the gallery
  are integers, so only the integer case of \<open>Number.prototype.toString\<close> is modelled.
\<close>

fun toString_nat :: "nat \<Rightarrow> string" where
  "toString_nat n =
     (if n < 10 then [''0123456789'' ! n]
      else toString_nat (n div 10) @ [''0123456789'' ! (n mod 10)])"

declare toString_nat.simps [simp del]

definition toString :: "int \<Rightarrow> string" where
  "toString i = (if i < 0 then CHR ''-'' # toString_nat (nat (- i)) else toString_nat (nat i))"

subsection \<open>The captioned gallery (script.js, lines 351 to 434)\<close>

definition catNames :: "string list" where
  "catNames = [''Oliver'', ''Zizi'', ''Nancy'', ''Sophia'', ''Mr Onions'', ''DaFu'', ''Bertie'']"

text \<open>
  \<open>updateCaption(index)\<close>: guarded by \<open>if (galleryCaption)\<close>; \<open>catNames[index] ?? ""\<close>
  replaces \<open>undefined\<close> by the empty string. Both call sites pass no argument, so
  \<open>index\<close> is the \<open>currentIndex\<close> of the moment of the call.
\<close>

definition updateCaption :: "int \<Rightarrow> container \<Rightarrow> container" where
  "updateCaption index d =
     (case galleryCaption d of
        None \<Rightarrow> d
      | Some _ \<Rightarrow>
          d\<lparr>galleryCaption :=
              Some (''Meet '' @ (case array_get catNames index of None \<Rightarrow> [] | Some name \<Rightarrow> name))\<rparr>)"

text \<open>
  \<open>showImage(newIndex)\<close>, statement by statement. \<open>images[currentIndex].classList\<close>
  throws when \<open>images[currentIndex]\<close> is \<open>undefined\<close>; \<open>images[newIndex]\<close> is inside the
  array after the guard. \<open>galleryIndexEl.textContent = ...\<close> has no guard: it throws
  when the counter is absent, after the two class lists and \<open>currentIndex\<close> have been
  written and before \<open>updateCaption\<close> runs.
\<close>

definition showImage :: "int \<Rightarrow> gallery \<Rightarrow> error option \<times> gallery" where
  "showImage newIndex g =
     (let imgs = images (els g) in
      if newIndex < 0 \<or> newIndex \<ge> int (length imgs) \<or> newIndex = currentIndex g then (None, g)
      else
        (case array_get imgs (currentIndex g) of
           None \<Rightarrow> (Some TypeError, g)
         | Some cur \<Rightarrow>
             let imgs1 = imgs[nat (currentIndex g) := classList_add cur ''hidden-img''];
                 imgs2 = imgs1[nat newIndex := classList_remove (imgs1 ! nat newIndex) ''hidden-img''];
                 g1 = \<lparr>els = (els g)\<lparr>images := imgs2\<rparr>, currentIndex = newIndex\<rparr>
             in (case galleryIndexEl (els g1) of
                   None \<Rightarrow> (Some TypeError, g1)
                 | Some _ \<Rightarrow>
                     let d2 = (els g1)\<lparr>galleryIndexEl :=
                                Some (toString (currentIndex g1 + 1) @ '' / '' @
                                      toString (int (length imgs2)))\<rparr>
                     in (None, g1\<lparr>els := updateCaption (currentIndex g1) d2\<rparr>))))"

text \<open>The two click listeners (lines 426 to 433).\<close>

definition prevClick :: "gallery \<Rightarrow> error option \<times> gallery" where
  "prevClick g = (if currentIndex g > 0 then showImage (currentIndex g - 1) g else (None, g))"

definition nextClick :: "gallery \<Rightarrow> error option \<times> gallery" where
  "nextClick g =
     (if currentIndex g < int (length (images (els g))) - 1 then showImage (currentIndex g + 1) g
      else (None, g))"

text \<open>
  \<open>createImageGallery\<close>, applied to what \<open>document.querySelector(containerSelector)\<close>
  returned. The result is the container afterwards and, when the gallery activated,
  the \<open>currentIndex\<close> its closure starts with. No statement of the construction can
  throw: every element it dereferences has been tested before.
\<close>

definition createImageGallery :: "container option \<Rightarrow> container option \<times> int option" where
  "createImageGallery c =
     (case c of
        None \<Rightarrow> (None, None)
      | Some d \<Rightarrow>
          if images d = [] \<or> prevBtn d = None \<or> nextBtn d = None then (Some d, None)
          else
            let cur = max (findIndex (\<lambda>img. \<not> classList_contains img ''hidden-img'') (images d)) 0;
                d1 = d\<lparr>images :=
                       map (\<lambda>(index, img). classList_toggle img ''hidden-img'' (int index \<noteq> cur))
                         (enumerate 0 (images d))\<rparr>;
                d2 = updateCaption cur d1;
                d3 = d2\<lparr>prevBtn := map_option (\<lambda>ls. ls @ [PrevListener]) (prevBtn d2)\<rparr>;
                d4 = d3\<lparr>nextBtn := map_option (\<lambda>ls. ls @ [NextListener]) (nextBtn d3)\<rparr>
            in (Some d4, Some cur))"

subsection \<open>The variant without captions (part_000)\<close>

definition showImage_plain :: "int \<Rightarrow> gallery \<Rightarrow> error option \<times> gallery" where
  "showImage_plain newIndex g =
     (let imgs = images (els g) in
      if newIndex < 0 \<or> newIndex \<ge> int (length imgs) then (None, g)
      else if newIndex = currentIndex g then (None, g)
      else
        (case array_get imgs (currentIndex g) of
           None \<Rightarrow> (Some TypeError, g)
         | Some cur \<Rightarrow>
             let imgs1 = imgs[nat (currentIndex g) := classList_add cur ''hidden-img''];
                 imgs2 = imgs1[nat newIndex := classList_remove (imgs1 ! nat newIndex) ''hidden-img''];
                 g1 = \<lparr>els = (els g)\<lparr>images := imgs2\<rparr>, currentIndex = newIndex\<rparr>
             in (case galleryIndexEl (els g1) of
                   None \<Rightarrow> (Some TypeError, g1)
                 | Some _ \<Rightarrow>
                     (None, g1\<lparr>els := (els g1)\<lparr>galleryIndexEl :=
                                Some (toString (currentIndex g1 + 1) @ '' / '' @
                                      toString (int (length imgs2)))\<rparr>\<rparr>))))"

definition prevClick_plain :: "gallery \<Rightarrow> error option \<times> gallery" where
  "prevClick_plain g =
     (if currentIndex g > 0 then showImage_plain (currentIndex g - 1) g else (None, g))"

definition nextClick_plain :: "gallery \<Rightarrow> error option \<times> gallery" where
  "nextClick_plain g =
     (if currentIndex g < int (length (images (els g))) - 1
      then showImage_plain (currentIndex g + 1) g
      else (None, g))"

definition createImageGallery_plain :: "container option \<Rightarrow> container option \<times> int option" where
  "createImageGallery_plain c =
     (case c of
        None \<Rightarrow> (None, None)
      | Some d \<Rightarrow>
          if images d = [] \<or> prevBtn d = None \<or> nextBtn d = None then (Some d, None)
          else
            let found = findIndex (\<lambda>img. \<not> classList_contains img ''hidden-img'') (images d);
                cur = (if found = - 1 then 0 else found);
                d1 = d\<lparr>images :=
                       map (\<lambda>(index, img).
                              if int index = cur then classList_remove img ''hidden-img''
                              else classList_add img ''hidden-img'')
                         (enumerate 0 (images d))\<rparr>;
                d3 = d1\<lparr>prevBtn := map_option (\<lambda>ls. ls @ [PrevListener]) (prevBtn d1)\<rparr>;
                d4 = d3\<lparr>nextBtn := map_option (\<lambda>ls. ls @ [NextListener]) (nextBtn d3)\<rparr>
            in (Some d4, Some cur))"

subsection \<open>Activations and observations\<close>

text \<open>
  A click on the previous or the next control runs the listener registered for it.
  An exception that leaves a listener is reported by the browser and the page goes
  on, so a sequence of clicks continues from the state the throwing listener left.
\<close>

datatype activation = Prev | Next

fun activate :: "activation \<Rightarrow> gallery \<Rightarrow> error option \<times> gallery" where
  "activate Prev g = prevClick g"
| "activate Next g = nextClick g"

fun activate_plain :: "activation \<Rightarrow> gallery \<Rightarrow> error option \<times> gallery" where
  "activate_plain Prev g = prevClick_plain g"
| "activate_plain Next g = nextClick_plain g"

text \<open>The gallery a construction leaves, if it activated.\<close>

definition gallery_of :: "container option \<times> int option \<Rightarrow> gallery option" where
  "gallery_of r =
     (case r of
        (Some d, Some cur) \<Rightarrow> Some \<lparr>els = d, currentIndex = cur\<rparr>
      | _ \<Rightarrow> None)"

text \<open>A slide is visible when its class list does not hold \<^verbatim>\<open>hidden-img\<close>.\<close>

definition visible :: "classList \<Rightarrow> bool" where
  "visible cl = (\<not> classList_contains cl ''hidden-img'')"

text \<open>
  The state invariant of the data model: the cursor is inside the slide list, the
  slide at the cursor is visible and every other slide is hidden.
\<close>

definition gallery_inv :: "gallery \<Rightarrow> bool" where
  "gallery_inv g =
     (0 \<le> currentIndex g \<and> currentIndex g < int (length (images (els g))) \<and>
      (\<forall>i < length (images (els g)). visible (images (els g) ! i) = (int i = currentIndex g)))"

text \<open>
  What the two variants are compared on: the cursor and the class list of every
  slide, after the construction and after each activation of a sequence.
\<close>

definition observe :: "gallery \<Rightarrow> int \<times> classList list" where
  "observe g = (currentIndex g, images (els g))"

fun trace :: "activation list \<Rightarrow> gallery \<Rightarrow> (int \<times> classList list) list" where
  "trace [] g = [observe g]"
| "trace (a # as) g = observe g # trace as (snd (activate a g))"

fun trace_plain :: "activation list \<Rightarrow> gallery \<Rightarrow> (int \<times> classList list) list" where
  "trace_plain [] g = [observe g]"
| "trace_plain (a # as) g = observe g # trace_plain as (snd (activate_plain a g))"

definition behaviour :: "container option \<Rightarrow> activation list \<Rightarrow> (int \<times> classList list) list option" where
  "behaviour c as = map_option (trace as) (gallery_of (createImageGallery c))"

definition behaviour_plain :: "container option \<Rightarrow> activation list \<Rightarrow> (int \<times> classList list) list option" where
  "behaviour_plain c as = map_option (trace_plain as) (gallery_of (createImageGallery_plain c))"

text \<open>
  The part of a gallery's state that both variants read and write: the cursor, the
  class lists and the counter. The caption is the part only the captioned one writes.
\<close>

definition caption_blind :: "gallery \<Rightarrow> int \<times> classList list \<times> string option" where
  "caption_blind g = (currentIndex g, images (els g), galleryIndexEl (els g))"

subsection \<open>Example markup\<close>

text \<open>
  Three slides of which the first is hidden and the other two are not, a counter whose
  markup says \<open>1 / 3\<close> and an empty caption; and the gallery its construction leaves.
\<close>

definition ex3 :: container where
  "ex3 = \<lparr>images = [[''gallery-img'', ''hidden-img''], [''gallery-img''], [''gallery-img'']],
          prevBtn = Some [], nextBtn = Some [], galleryIndexEl = Some ''1 / 3'',
          galleryCaption = Some []\<rparr>"

definition ex3_gallery :: gallery where
  "ex3_gallery =
     \<lparr>els = \<lparr>images = [[''gallery-img'', ''hidden-img''], [''gallery-img''],
                        [''gallery-img'', ''hidden-img'']],
             prevBtn = Some [PrevListener], nextBtn = Some [NextListener],
             galleryIndexEl = Some ''1 / 3'', galleryCaption = Some ''Meet Zizi''\<rparr>,
      currentIndex = 1\<rparr>"

text \<open>Three slides that all carry the hidden marker.\<close>

definition ex3_all_hidden :: container where
  "ex3_all_hidden =
     \<lparr>images = [[''gallery-img'', ''hidden-img''], [''gallery-img'', ''hidden-img''],
                [''gallery-img'', ''hidden-img'']],
      prevBtn = Some [], nextBtn = Some [], galleryIndexEl = Some ''1 / 3'',
      galleryCaption = None\<rparr>"

text \<open>
  Seven slides of which only the one at index 2 is visible, with the counter text
  \<open>1 / 7\<close> in the markup.
\<close>

definition ex7 :: container where
  "ex7 = \<lparr>images = [[''gallery-img'', ''hidden-img''], [''gallery-img'', ''hidden-img''],
                     [''gallery-img''], [''gallery-img'', ''hidden-img''],
                     [''gallery-img'', ''hidden-img''], [''gallery-img'', ''hidden-img''],
                     [''gallery-img'', ''hidden-img'']],
          prevBtn = Some [], nextBtn = Some [], galleryIndexEl = Some ''1 / 7'',
          galleryCaption = Some []\<rparr>"

text \<open>Two slides, both controls and a caption, but no counter element.\<close>

definition ex2_no_counter :: container where
  "ex2_no_counter =
     \<lparr>images = [[''gallery-img''], [''gallery-img'', ''hidden-img'']],
      prevBtn = Some [], nextBtn = Some [], galleryIndexEl = None,
      galleryCaption = Some []\<rparr>"

text \<open>
  Eight slides, one more than \<open>catNames\<close> has names, of which only the one at index 6
  is visible; with a counter, and without one.
\<close>

definition ex8 :: container where
  "ex8 = \<lparr>images = [[''gallery-img'', ''hidden-img''], [''gallery-img'', ''hidden-img''],
                     [''gallery-img'', ''hidden-img''], [''gallery-img'', ''hidden-img''],
                     [''gallery-img'', ''hidden-img''], [''gallery-img'', ''hidden-img''],
                     [''gallery-img''], [''gallery-img'', ''hidden-img'']],
          prevBtn = Some [], nextBtn = Some [], galleryIndexEl = Some ''7 / 8'',
          galleryCaption = Some []\<rparr>"

definition ex8_no_counter :: container where
  "ex8_no_counter = ex8\<lparr>galleryIndexEl := None\<rparr>"

text \<open>The markup of \<open>ex3\<close> without its previous control.\<close>

definition ex3_no_prev :: container where
  "ex3_no_prev = ex3\<lparr>prevBtn := None\<rparr>"

lemmas eval_simps =
  createImageGallery_def createImageGallery_plain_def findIndex_def classList_contains_def
  classList_toggle_def classList_add_def classList_remove_def updateCaption_def
  array_get_def catNames_def enumerate_eq_zip upt_rec showImage_def showImage_plain_def
  prevClick_def nextClick_def prevClick_plain_def nextClick_plain_def gallery_of_def
  toString_def toString_nat.simps visible_def Let_def

section \<open>Properties\<close>

subsection \<open>Class lists and \<open>findIndex\<close>\<close>

lemma visible_add [simp]: "\<not> visible (classList_add cl ''hidden-img'')"
  by (simp add: visible_def classList_add_def classList_contains_def)

lemma visible_remove [simp]: "visible (classList_remove cl ''hidden-img'')"
  by (simp add: visible_def classList_remove_def classList_contains_def)

lemma visible_toggle [simp]: "visible (classList_toggle cl ''hidden-img'' force) = (\<not> force)"
  by (simp add: classList_toggle_def)

lemma findIndex_from_none:
  "\<forall>x \<in> set xs. \<not> P x \<Longrightarrow> findIndex_from k P xs = - 1"
  by (induction xs arbitrary: k) auto

lemma findIndex_from_first:
  "\<exists>x \<in> set xs. P x \<Longrightarrow>
   \<exists>i < length xs. findIndex_from k P xs = k + int i \<and> P (xs ! i) \<and> (\<forall>j < i. \<not> P (xs ! j))"
proof (induction xs arbitrary: k)
  case Nil
  then show ?case by simp
next
  case (Cons x xs)
  show ?case
  proof (cases "P x")
    case True
    then show ?thesis by (intro exI [of _ 0]) simp
  next
    case False
    with Cons.prems have "\<exists>y \<in> set xs. P y" by simp
    from Cons.IH [OF this, of "k + 1"] obtain i where
      i: "i < length xs" "findIndex_from (k + 1) P xs = k + 1 + int i" "P (xs ! i)"
         "\<forall>j < i. \<not> P (xs ! j)" by blast
    show ?thesis
    proof (intro exI [of _ "Suc i"] conjI)
      show "\<forall>j < Suc i. \<not> P ((x # xs) ! j)"
        using False i(4) by (auto simp: nth_Cons split: nat.splits)
    qed (use False i in auto)
  qed
qed

lemma findIndex_bounds: "- 1 \<le> findIndex P xs \<and> findIndex P xs < int (length xs)"
proof (cases "\<exists>x \<in> set xs. P x")
  case True
  from findIndex_from_first [OF this, of 0] show ?thesis by (auto simp: findIndex_def)
next
  case False
  then show ?thesis by (simp add: findIndex_def findIndex_from_none)
qed

lemma max_findIndex:
  "max (findIndex P xs) 0 = (if findIndex P xs = - 1 then 0 else findIndex P xs)"
  using findIndex_bounds [of P xs] by auto

subsection \<open>What a construction and a transition write\<close>

lemma images_updateCaption [simp]: "images (updateCaption i d) = images d"
  by (simp add: updateCaption_def split: option.splits)

lemma galleryIndexEl_updateCaption [simp]: "galleryIndexEl (updateCaption i d) = galleryIndexEl d"
  by (simp add: updateCaption_def split: option.splits)

lemma createImageGallery_active:
  assumes "images d \<noteq> []" "prevBtn d \<noteq> None" "nextBtn d \<noteq> None"
  shows "\<exists>d'. createImageGallery (Some d) =
           (Some d', Some (max (findIndex (\<lambda>img. \<not> classList_contains img ''hidden-img'') (images d)) 0)) \<and>
         images d' = map (\<lambda>(index, img). classList_toggle img ''hidden-img''
            (int index \<noteq> max (findIndex (\<lambda>img. \<not> classList_contains img ''hidden-img'') (images d)) 0))
              (enumerate 0 (images d)) \<and>
         galleryIndexEl d' = galleryIndexEl d"
  using assms by (simp add: createImageGallery_def Let_def)

lemma showImage_skip:
  "newIndex < 0 \<or> newIndex \<ge> int (length (images (els g))) \<or> newIndex = currentIndex g \<Longrightarrow>
   showImage newIndex g = (None, g)"
  by (auto simp: showImage_def)

lemma showImage_images:
  assumes "0 \<le> t" "t < int (length (images (els g)))" "t \<noteq> currentIndex g"
    "0 \<le> currentIndex g" "currentIndex g < int (length (images (els g)))"
  shows "images (els (snd (showImage t g))) =
         (images (els g))[nat (currentIndex g) := classList_add (images (els g) ! nat (currentIndex g)) ''hidden-img'',
            nat t := classList_remove (images (els g) ! nat t) ''hidden-img'']"
    and "currentIndex (snd (showImage t g)) = t"
  using assms by (auto simp: showImage_def array_get_def Let_def split: option.splits)

lemma showImage_target:
  assumes "gallery_inv g" "0 \<le> t" "t < int (length (images (els g)))" "t \<noteq> currentIndex g"
  shows "length (images (els (snd (showImage t g)))) = length (images (els g)) \<and>
         currentIndex (snd (showImage t g)) = t \<and>
         (\<forall>i < length (images (els g)). visible (images (els (snd (showImage t g))) ! i) = (int i = t)) \<and>
         \<not> visible (images (els (snd (showImage t g))) ! nat (currentIndex g))"
proof -
  from assms(1) have c: "0 \<le> currentIndex g" "currentIndex g < int (length (images (els g)))"
    and v: "\<And>i. i < length (images (els g)) \<Longrightarrow> visible (images (els g) ! i) = (int i = currentIndex g)"
    by (simp_all add: gallery_inv_def)
  note im = showImage_images [OF assms(2,3,4) c]
  have ne: "nat (currentIndex g) \<noteq> nat t" using assms(2,4) c by simp
  have "visible (images (els (snd (showImage t g))) ! i) = (int i = t)"
    if "i < length (images (els g))" for i
    using that v [OF that] assms(2,3) c ne
    by (cases "i = nat t"; cases "i = nat (currentIndex g)") (auto simp: im(1))
  moreover have "\<not> visible (images (els (snd (showImage t g))) ! nat (currentIndex g))"
    using c ne by (simp add: im(1))
  ultimately show ?thesis by (simp add: im)
qed

lemma gallery_inv_showImage:
  assumes "gallery_inv g"
  shows "gallery_inv (snd (showImage t g))"
proof (cases "t < 0 \<or> t \<ge> int (length (images (els g))) \<or> t = currentIndex g")
  case True
  then show ?thesis using assms by (simp add: showImage_skip)
next
  case False
  then have t: "0 \<le> t" "t < int (length (images (els g)))" "t \<noteq> currentIndex g" by auto
  from showImage_target [OF assms t] t show ?thesis
    by (simp add: gallery_inv_def)
qed

lemma gallery_inv_activate: "gallery_inv g \<Longrightarrow> gallery_inv (snd (activate a g))"
  by (cases a) (simp_all add: prevClick_def nextClick_def gallery_inv_showImage)

lemma gallery_inv_created:
  assumes "images d \<noteq> []" "prevBtn d \<noteq> None" "nextBtn d \<noteq> None"
  shows "\<exists>g. gallery_of (createImageGallery (Some d)) = Some g \<and> gallery_inv g"
proof -
  let ?P = "\<lambda>img. \<not> classList_contains img ''hidden-img''"
  let ?c = "max (findIndex ?P (images d)) 0"
  from createImageGallery_active [OF assms] obtain d' where
    d': "createImageGallery (Some d) = (Some d', Some ?c)"
        "images d' = map (\<lambda>(index, img). classList_toggle img ''hidden-img'' (int index \<noteq> ?c))
              (enumerate 0 (images d))" by blast
  have "?c < int (length (images d))"
    using findIndex_bounds [of ?P "images d"] assms(1) by auto
  then have "gallery_inv \<lparr>els = d', currentIndex = ?c\<rparr>"
    by (simp add: gallery_inv_def d'(2) nth_enumerate_eq)
  then show ?thesis by (simp add: d'(1) gallery_of_def)
qed

lemma ex3_created: "gallery_of (createImageGallery (Some ex3)) = Some ex3_gallery"
  by (simp add: ex3_def ex3_gallery_def eval_simps)

lemma ex3_gallery_inv: "gallery_inv ex3_gallery"
  by (simp add: gallery_inv_def ex3_gallery_def visible_def classList_contains_def All_less_Suc)

subsection \<open>The transition\<close>

text \<open>
  Claim C1. In a gallery whose state satisfies the invariant of the data model (cursor
  \<open>c\<close> inside the list of \<open>N\<close> slides, the slide at \<open>c\<close> the only visible one), a call
  \<open>showImage(t)\<close> with \<open>0 \<le> t < N\<close> and \<open>t \<noteq> c\<close> leaves the slide list at its length,
  moves the cursor to \<open>t\<close>, leaves the slide at \<open>t\<close> as the only visible one and the
  slide at the old cursor hidden. This holds of the state the call leaves whether or
  not the counter write after it throws.
\<close>

theorem showImage_shows_exactly_target:
  assumes "gallery_inv g" "0 \<le> t" "t < int (length (images (els g)))" "t \<noteq> currentIndex g"
  shows "length (images (els (snd (showImage t g)))) = length (images (els g)) \<and>
         currentIndex (snd (showImage t g)) = t \<and>
         (\<forall>i < length (images (els g)). visible (images (els (snd (showImage t g))) ! i) = (int i = t)) \<and>
         \<not> visible (images (els (snd (showImage t g))) ! nat (currentIndex g))"
  using assms by (rule showImage_target)

theorem showImage_shows_exactly_target_witness:
  "gallery_inv ex3_gallery \<and> (0::int) \<le> 2 \<and> 2 < int (length (images (els ex3_gallery))) \<and>
   2 \<noteq> currentIndex ex3_gallery \<and>
   length (images (els (snd (showImage 2 ex3_gallery)))) = 3 \<and>
   currentIndex (snd (showImage 2 ex3_gallery)) = 2 \<and>
   map visible (images (els (snd (showImage 2 ex3_gallery)))) = [False, False, True] \<and>
   \<not> visible (images (els (snd (showImage 2 ex3_gallery))) ! 1)"
proof -
  have h: "gallery_inv ex3_gallery" "(0::int) \<le> 2" "2 < int (length (images (els ex3_gallery)))"
    "2 \<noteq> currentIndex ex3_gallery"
    by (simp_all add: ex3_gallery_inv) (simp_all add: ex3_gallery_def)
  have len: "length (images (els ex3_gallery)) = 3" and cur: "nat (currentIndex ex3_gallery) = 1"
    by (simp_all add: ex3_gallery_def)
  from showImage_shows_exactly_target [OF h]
  have r: "length (images (els (snd (showImage 2 ex3_gallery)))) = 3"
    "currentIndex (snd (showImage 2 ex3_gallery)) = 2"
    "\<forall>i < 3. visible (images (els (snd (showImage 2 ex3_gallery))) ! i) = (int i = 2)"
    "\<not> visible (images (els (snd (showImage 2 ex3_gallery))) ! 1)"
    by (simp_all add: len cur)
  from r(3) have v: "\<not> visible (images (els (snd (showImage 2 ex3_gallery))) ! 0)"
    "\<not> visible (images (els (snd (showImage 2 ex3_gallery))) ! 1)"
    "visible (images (els (snd (showImage 2 ex3_gallery))) ! 2)"
    by simp_all
  have "map visible (images (els (snd (showImage 2 ex3_gallery)))) = [False, False, True]"
    using r(1) v by (simp add: list_eq_iff_nth_eq All_less_Suc numeral_3_eq_3 numeral_2_eq_2)
  with h r show ?thesis by simp
qed

text \<open>
  Claim C2. For a container with at least one slide and both controls, the construction
  activates and the gallery it leaves satisfies the invariant: the cursor is an integer
  in \<open>[0, N-1]\<close>, the slide at the cursor is visible, every other slide is hidden. The
  invariant is preserved by every activation of the previous and of the next control.
\<close>

theorem gallery_inv_holds:
  assumes "images d \<noteq> []" "prevBtn d \<noteq> None" "nextBtn d \<noteq> None"
  shows "(\<exists>g. gallery_of (createImageGallery (Some d)) = Some g \<and> gallery_inv g) \<and>
         (\<forall>g a. gallery_inv g \<longrightarrow> gallery_inv (snd (activate a g)))"
  using gallery_inv_created [OF assms] gallery_inv_activate by blast

theorem gallery_inv_holds_witness:
  "images ex7 \<noteq> [] \<and> prevBtn ex7 \<noteq> None \<and> nextBtn ex7 \<noteq> None \<and>
   (\<exists>g. gallery_of (createImageGallery (Some ex7)) = Some g \<and> gallery_inv g \<and>
        gallery_inv (snd (activate Prev g)) \<and> gallery_inv (snd (activate Next g)))"
proof -
  have h: "images ex7 \<noteq> []" "prevBtn ex7 \<noteq> None" "nextBtn ex7 \<noteq> None"
    by (simp_all add: ex7_def)
  from gallery_inv_holds [OF h] h show ?thesis by blast
qed

text \<open>
  Claim C3. A call \<open>showImage(t)\<close> with \<open>t\<close> outside \<open>[0, N-1]\<close> or equal to the cursor
  returns at its guard: nothing is thrown and the whole state (the cursor, every class
  list, the counter text, the caption text) is what it was.
\<close>

theorem showImage_noop:
  assumes "t < 0 \<or> t \<ge> int (length (images (els g))) \<or> t = currentIndex g"
  shows "showImage t g = (None, g)"
  using assms by (rule showImage_skip)

theorem showImage_noop_witness:
  "(3 < (0::int) \<or> 3 \<ge> int (length (images (els ex3_gallery))) \<or> 3 = currentIndex ex3_gallery) \<and>
   showImage 3 ex3_gallery = (None, ex3_gallery) \<and>
   showImage (- 1) ex3_gallery = (None, ex3_gallery) \<and>
   showImage 1 ex3_gallery = (None, ex3_gallery)"
proof -
  have h: "3 < (0::int) \<or> 3 \<ge> int (length (images (els ex3_gallery))) \<or> 3 = currentIndex ex3_gallery"
    by (simp add: ex3_gallery_def)
  have h': "- 1 < (0::int) \<or> - 1 \<ge> int (length (images (els ex3_gallery))) \<or> - 1 = currentIndex ex3_gallery"
    by simp
  have h'': "1 < (0::int) \<or> 1 \<ge> int (length (images (els ex3_gallery))) \<or> 1 = currentIndex ex3_gallery"
    by (simp add: ex3_gallery_def)
  from showImage_noop [OF h] showImage_noop [OF h'] showImage_noop [OF h''] h
  show ?thesis by blast
qed

subsection \<open>Construction\<close>

text \<open>
  Claim C6. When the gallery activates, the initial cursor is the index of the first
  slide in document order whose class list does not hold the hidden marker, and it is
  0 when every slide holds it. Both variants of the gallery compute that cursor.
\<close>

theorem initial_cursor_first_visible:
  assumes "images d \<noteq> []" "prevBtn d \<noteq> None" "nextBtn d \<noteq> None"
  shows "\<exists>c. snd (createImageGallery (Some d)) = Some c \<and>
             snd (createImageGallery_plain (Some d)) = Some c \<and>
             (if \<exists>cl \<in> set (images d). visible cl
              then 0 \<le> c \<and> nat c < length (images d) \<and> visible (images d ! nat c) \<and>
                   (\<forall>j < nat c. \<not> visible (images d ! j))
              else c = 0)"
proof -
  let ?P = "\<lambda>img. \<not> classList_contains img ''hidden-img''"
  let ?c = "max (findIndex ?P (images d)) 0"
  have vis: "visible = ?P" by (simp add: visible_def fun_eq_iff)
  have a: "snd (createImageGallery (Some d)) = Some ?c"
    using assms by (simp add: createImageGallery_def Let_def)
  have b: "snd (createImageGallery_plain (Some d)) = Some ?c"
    using assms by (simp add: createImageGallery_plain_def Let_def max_findIndex)
  have "if \<exists>cl \<in> set (images d). visible cl
        then 0 \<le> ?c \<and> nat ?c < length (images d) \<and> visible (images d ! nat ?c) \<and>
             (\<forall>j < nat ?c. \<not> visible (images d ! j))
        else ?c = 0"
  proof (cases "\<exists>cl \<in> set (images d). visible cl")
    case True
    then have "\<exists>cl \<in> set (images d). ?P cl" by (simp add: vis)
    from findIndex_from_first [OF this, of 0] obtain i where
      i: "i < length (images d)" "findIndex ?P (images d) = int i" "?P (images d ! i)"
         "\<forall>j < i. \<not> ?P (images d ! j)" by (auto simp: findIndex_def)
    then show ?thesis using True by (simp add: vis)
  next
    case False
    then have "\<forall>cl \<in> set (images d). \<not> ?P cl" by (simp add: vis)
    then have "findIndex ?P (images d) = - 1" by (simp add: findIndex_def findIndex_from_none)
    then show ?thesis using False by simp
  qed
  with a b show ?thesis by blast
qed

theorem initial_cursor_first_visible_witness:
  "images ex3 \<noteq> [] \<and> prevBtn ex3 \<noteq> None \<and> nextBtn ex3 \<noteq> None \<and>
   snd (createImageGallery (Some ex3)) = Some 1 \<and>
   snd (createImageGallery_plain (Some ex3)) = Some 1 \<and>
   \<not> visible (images ex3 ! 0) \<and> visible (images ex3 ! 1) \<and>
   images ex3_all_hidden \<noteq> [] \<and> prevBtn ex3_all_hidden \<noteq> None \<and> nextBtn ex3_all_hidden \<noteq> None \<and>
   list_all (\<lambda>cl. \<not> visible cl) (images ex3_all_hidden) \<and>
   snd (createImageGallery (Some ex3_all_hidden)) = Some 0 \<and>
   snd (createImageGallery_plain (Some ex3_all_hidden)) = Some 0"
proof -
  have h: "images ex3 \<noteq> []" "prevBtn ex3 \<noteq> None" "nextBtn ex3 \<noteq> None"
    by (simp_all add: ex3_def)
  have k: "images ex3_all_hidden \<noteq> []" "prevBtn ex3_all_hidden \<noteq> None"
    "nextBtn ex3_all_hidden \<noteq> None"
    by (simp_all add: ex3_all_hidden_def)
  have v: "\<not> visible (images ex3 ! 0)" "visible (images ex3 ! 1)"
    by (simp_all add: ex3_def visible_def classList_contains_def)
  have w: "list_all (\<lambda>cl. \<not> visible cl) (images ex3_all_hidden)"
    by (simp add: ex3_all_hidden_def visible_def classList_contains_def)
  have e: "\<exists>cl \<in> set (images ex3). visible cl"
    by (simp add: ex3_def visible_def classList_contains_def)
  from initial_cursor_first_visible [OF h] obtain c where
    c: "snd (createImageGallery (Some ex3)) = Some c"
       "snd (createImageGallery_plain (Some ex3)) = Some c"
       "0 \<le> c" "visible (images ex3 ! nat c)" "\<forall>j < nat c. \<not> visible (images ex3 ! j)"
    using e by auto
  have "nat c = 1"
  proof (rule ccontr)
    assume n: "nat c \<noteq> 1"
    show False
    proof (cases "nat c = 0")
      case True
      with c(4) v(1) show False by simp
    next
      case False
      with n have "1 < nat c" by simp
      with c(5) v(2) show False by blast
    qed
  qed
  with c(3) have c1: "c = 1" by simp
  from initial_cursor_first_visible [OF k] obtain c' where
    c': "snd (createImageGallery (Some ex3_all_hidden)) = Some c'"
        "snd (createImageGallery_plain (Some ex3_all_hidden)) = Some c'"
        "c' = 0"
    using w by (auto simp: list_all_iff split: if_splits)
  from h k v w c c1 c' show ?thesis by simp
qed

text \<open>
  Claim C9. For a container that exists but has no slide, no previous control or no
  next control, the construction returns at its guard: the container is what it was
  (every class list, the counter text, the caption text and the listeners of the
  controls) and no gallery is activated. The construction has no statement that can
  throw.
\<close>

theorem createImageGallery_inert:
  assumes "images d = [] \<or> prevBtn d = None \<or> nextBtn d = None"
  shows "createImageGallery (Some d) = (Some d, None)"
  using assms by (auto simp: createImageGallery_def)

theorem createImageGallery_inert_witness:
  "(images ex3_no_prev = [] \<or> prevBtn ex3_no_prev = None \<or> nextBtn ex3_no_prev = None) \<and>
   createImageGallery (Some ex3_no_prev) = (Some ex3_no_prev, None)"
proof -
  have h: "images ex3_no_prev = [] \<or> prevBtn ex3_no_prev = None \<or> nextBtn ex3_no_prev = None"
    by (simp add: ex3_no_prev_def)
  from createImageGallery_inert [OF h] h show ?thesis by blast
qed

subsection \<open>The controls\<close>

text \<open>
  Claim C7. With the cursor \<open>c\<close> inside the slide list: at \<open>c = 0\<close> the previous control
  changes nothing, and otherwise it moves the cursor to \<open>c - 1\<close>; at \<open>c = N - 1\<close> the next
  control changes nothing, and otherwise it moves the cursor to \<open>c + 1\<close>. There is no
  wraparound.
\<close>

theorem controls_no_wraparound:
  assumes "0 \<le> currentIndex g" "currentIndex g < int (length (images (els g)))"
  shows "(if currentIndex g = 0 then prevClick g = (None, g)
          else currentIndex (snd (prevClick g)) = currentIndex g - 1) \<and>
         (if currentIndex g = int (length (images (els g))) - 1 then nextClick g = (None, g)
          else currentIndex (snd (nextClick g)) = currentIndex g + 1)"
proof -
  have p: "currentIndex (snd (prevClick g)) = currentIndex g - 1" if "currentIndex g \<noteq> 0"
    using that assms showImage_images(2) [of "currentIndex g - 1" g]
    by (simp add: prevClick_def)
  have n: "currentIndex (snd (nextClick g)) = currentIndex g + 1"
    if "currentIndex g \<noteq> int (length (images (els g))) - 1"
    using that assms showImage_images(2) [of "currentIndex g + 1" g]
    by (simp add: nextClick_def)
  have p0: "prevClick g = (None, g)" if "currentIndex g = 0"
    using that by (simp add: prevClick_def)
  have n0: "nextClick g = (None, g)" if "currentIndex g = int (length (images (els g))) - 1"
    using that by (simp add: nextClick_def)
  from p p0 n n0 show ?thesis by presburger
qed

theorem controls_no_wraparound_witness:
  "0 \<le> currentIndex ex3_gallery \<and> currentIndex ex3_gallery < int (length (images (els ex3_gallery))) \<and>
   currentIndex (snd (prevClick ex3_gallery)) = 0 \<and>
   currentIndex (snd (nextClick ex3_gallery)) = 2 \<and>
   prevClick (snd (prevClick ex3_gallery)) = (None, snd (prevClick ex3_gallery)) \<and>
   nextClick (snd (nextClick ex3_gallery)) = (None, snd (nextClick ex3_gallery))"
proof -
  have h: "0 \<le> currentIndex ex3_gallery"
    "currentIndex ex3_gallery < int (length (images (els ex3_gallery)))"
    by (simp_all add: ex3_gallery_def)
  have c: "currentIndex ex3_gallery = 1" "length (images (els ex3_gallery)) = 3"
    by (simp_all add: ex3_gallery_def)
  from controls_no_wraparound [OF h]
  have s: "currentIndex (snd (prevClick ex3_gallery)) = 0"
    "currentIndex (snd (nextClick ex3_gallery)) = 2"
    by (simp_all add: c)
  have l: "length (images (els (snd (prevClick ex3_gallery)))) = 3"
    "length (images (els (snd (nextClick ex3_gallery)))) = 3"
    by (simp_all add: ex3_gallery_def eval_simps)
  have hp: "0 \<le> currentIndex (snd (prevClick ex3_gallery))"
    "currentIndex (snd (prevClick ex3_gallery)) < int (length (images (els (snd (prevClick ex3_gallery)))))"
    by (simp_all add: s l)
  have hn: "0 \<le> currentIndex (snd (nextClick ex3_gallery))"
    "currentIndex (snd (nextClick ex3_gallery)) < int (length (images (els (snd (nextClick ex3_gallery)))))"
    by (simp_all add: s l)
  from controls_no_wraparound [OF hp]
  have bp: "prevClick (snd (prevClick ex3_gallery)) = (None, snd (prevClick ex3_gallery))"
    by (simp add: s)
  from controls_no_wraparound [OF hn]
  have bn: "nextClick (snd (nextClick ex3_gallery)) = (None, snd (nextClick ex3_gallery))"
    by (simp add: s l)
  from h s bp bn show ?thesis by simp
qed

subsection \<open>The two variants\<close>

lemma showImage_plain_agrees:
  assumes "caption_blind g1 = caption_blind g2"
  shows "fst (showImage_plain t g1) = fst (showImage t g2) \<and>
         caption_blind (snd (showImage_plain t g1)) = caption_blind (snd (showImage t g2))"
proof -
  from assms have e: "currentIndex g1 = currentIndex g2" "images (els g1) = images (els g2)"
    "galleryIndexEl (els g1) = galleryIndexEl (els g2)"
    by (simp_all add: caption_blind_def)
  show ?thesis
    by (simp add: showImage_plain_def showImage_def caption_blind_def e Let_def
        split: option.splits)
qed

lemma activate_plain_agrees:
  assumes "caption_blind g1 = caption_blind g2"
  shows "caption_blind (snd (activate_plain a g1)) = caption_blind (snd (activate a g2))"
proof -
  from assms have e: "currentIndex g1 = currentIndex g2" "images (els g1) = images (els g2)"
    by (simp_all add: caption_blind_def)
  show ?thesis
    using assms showImage_plain_agrees [OF assms]
    by (cases a) (simp_all add: prevClick_plain_def prevClick_def nextClick_plain_def
        nextClick_def e)
qed

lemma trace_plain_agrees:
  "caption_blind g1 = caption_blind g2 \<Longrightarrow> trace_plain as g1 = trace as g2"
proof (induction as arbitrary: g1 g2)
  case Nil
  then show ?case by (simp add: observe_def caption_blind_def)
next
  case (Cons a as)
  from Cons.prems have "observe g1 = observe g2"
    by (simp add: observe_def caption_blind_def)
  moreover have "trace_plain as (snd (activate_plain a g1)) = trace as (snd (activate a g2))"
    by (rule Cons.IH) (rule activate_plain_agrees [OF Cons.prems])
  ultimately show ?case by simp
qed

lemma toggle_as_branches:
  "classList_toggle img t (int index \<noteq> cur) =
   (if int index = cur then classList_remove img t else classList_add img t)"
  by (simp add: classList_toggle_def)

lemma created_plain_agrees:
  "rel_option (\<lambda>g1 g2. caption_blind g1 = caption_blind g2)
     (gallery_of (createImageGallery_plain c)) (gallery_of (createImageGallery c))"
proof (cases c)
  case None
  then show ?thesis
    by (simp add: createImageGallery_plain_def createImageGallery_def gallery_of_def)
next
  case (Some d)
  show ?thesis
  proof (cases "images d = [] \<or> prevBtn d = None \<or> nextBtn d = None")
    case True
    then show ?thesis using Some
      by (auto simp: createImageGallery_plain_def createImageGallery_def gallery_of_def)
  next
    case False
    then show ?thesis using Some
      by (simp add: createImageGallery_plain_def createImageGallery_def gallery_of_def Let_def
          caption_blind_def max_findIndex toggle_as_branches)
  qed
qed

text \<open>
  Claim C10. The variant without captions and the captioned variant agree on the cursor
  and on the class list of every slide: on the same markup both activate or neither
  does, they start with the same cursor and class lists, and after every activation of
  any sequence of previous and next activations their cursors and class lists are the
  same.
\<close>

theorem variants_agree: "behaviour_plain c as = behaviour c as"
proof -
  from created_plain_agrees [of c] show ?thesis
    by (cases "gallery_of (createImageGallery_plain c)"; cases "gallery_of (createImageGallery c)")
       (simp_all add: behaviour_plain_def behaviour_def trace_plain_agrees)
qed

lemma behaviour_ex3:
  "behaviour (Some ex3) [Next, Next, Prev] =
   Some [(1, [[''gallery-img'', ''hidden-img''], [''gallery-img''], [''gallery-img'', ''hidden-img'']]),
         (2, [[''gallery-img'', ''hidden-img''], [''gallery-img'', ''hidden-img''], [''gallery-img'']]),
         (2, [[''gallery-img'', ''hidden-img''], [''gallery-img'', ''hidden-img''], [''gallery-img'']]),
         (1, [[''gallery-img'', ''hidden-img''], [''gallery-img''], [''gallery-img'', ''hidden-img'']])]"
  by code_simp

subsection \<open>The counter\<close>

text \<open>
  The construction writes class lists, the caption and the listeners; it has no
  statement that writes the counter. The counter is written by \<open>showImage\<close> only.
\<close>

lemma createImageGallery_keeps_counter:
  "map_option galleryIndexEl (fst (createImageGallery c)) = map_option galleryIndexEl c"
  by (cases c) (auto simp: createImageGallery_def Let_def)

text \<open>
  Claim C4 says that for seven slides of which only the one at index 2 is visible the
  counter reads \<open>3 / 7\<close> right after the construction. On the markup \<open>ex7\<close>, whose
  counter element holds \<open>1 / 7\<close>, the construction finds the cursor 2, leaves the
  slide at index 2 as the only visible one and renders the caption of index 2, and the
  counter still reads \<open>1 / 7\<close>.
\<close>

theorem counter_stale_after_construction:
  "snd (createImageGallery (Some ex7)) = Some 2 \<and>
   map_option (map visible \<circ> images) (fst (createImageGallery (Some ex7))) =
     Some [False, False, True, False, False, False, False] \<and>
   map_option galleryCaption (fst (createImageGallery (Some ex7))) = Some (Some ''Meet Nancy'') \<and>
   map_option galleryIndexEl (fst (createImageGallery (Some ex7))) = Some (Some ''1 / 7'') \<and>
   map_option galleryIndexEl (fst (createImageGallery (Some ex7))) \<noteq> Some (Some ''3 / 7'')"
  by (simp add: ex7_def eval_simps)

text \<open>
  With a counter element and the cursor inside the slide list no call of \<open>showImage\<close>
  throws; without a counter element every call that passes the guard throws at the
  counter write and leaves the caption as it was.
\<close>

lemma showImage_completes_with_counter:
  assumes "galleryIndexEl (els g) \<noteq> None"
    "0 \<le> currentIndex g" "currentIndex g < int (length (images (els g)))"
  shows "fst (showImage t g) = None"
  using assms
  by (auto simp: showImage_def array_get_def Let_def split: option.splits)

lemma showImage_throws_without_counter:
  assumes "galleryIndexEl (els g) = None"
    "0 \<le> currentIndex g" "currentIndex g < int (length (images (els g)))"
    "0 \<le> t" "t < int (length (images (els g)))" "t \<noteq> currentIndex g"
  shows "fst (showImage t g) = Some TypeError \<and>
     galleryCaption (els (snd (showImage t g))) = galleryCaption (els g)"
  using assms
  by (auto simp: showImage_def array_get_def Let_def split: option.splits)

text \<open>
  Claim C5 says that no operation of the gallery raises, and that a gallery with
  slides and both controls but no counter element completes every valid transition.
  On the markup \<open>ex2_no_counter\<close> the construction activates with the cursor 0, and the
  first activation of the next control throws a \<open>TypeError\<close>: the class lists and the
  cursor have moved to index 1, the caption still names index 0.
\<close>

theorem transition_throws_without_counter:
  "map_option nextClick (gallery_of (createImageGallery (Some ex2_no_counter))) =
   Some (Some TypeError,
     \<lparr>els = \<lparr>images = [[''gallery-img'', ''hidden-img''], [''gallery-img'']],
             prevBtn = Some [PrevListener], nextBtn = Some [NextListener],
             galleryIndexEl = None, galleryCaption = Some ''Meet Oliver''\<rparr>,
      currentIndex = 1\<rparr>)"
  by (simp add: ex2_no_counter_def eval_simps)

subsection \<open>The caption\<close>

text \<open>
  With a counter element, a transition to an index at or beyond the length of
  \<open>catNames\<close> completes and renders \<open>Meet\<close> followed by a space and an empty name.
\<close>

lemma showImage_caption_beyond_table:
  assumes "galleryCaption (els g) \<noteq> None" "galleryIndexEl (els g) \<noteq> None"
    "0 \<le> currentIndex g" "currentIndex g < int (length (images (els g)))"
    "t \<noteq> currentIndex g" "int (length catNames) \<le> t" "t < int (length (images (els g)))"
  shows "fst (showImage t g) = None \<and>
         galleryCaption (els (snd (showImage t g))) = Some ''Meet ''"
  using assms
  by (auto simp: showImage_def array_get_def updateCaption_def Let_def split: option.splits)

lemma caption_beyond_table_with_counter:
  "map_option (\<lambda>g. (fst (nextClick g), currentIndex (snd (nextClick g)),
       galleryCaption (els (snd (nextClick g)))))
     (gallery_of (createImageGallery (Some ex8))) =
   Some (None, 7, Some ''Meet '')"
  by (simp add: ex8_def eval_simps)

text \<open>
  Claim C8 says that with a caption element and more slides than \<open>catNames\<close> has
  names, a transition to an index beyond the table renders the empty name and raises
  no error. On the markup \<open>ex8_no_counter\<close> (eight slides, a caption, no counter,
  the slide at index 6 visible) the activation of the next control moves the cursor to
  7 and throws a \<open>TypeError\<close> at the counter write, before \<open>updateCaption\<close>: the caption
  still reads \<open>Meet Bertie\<close>.
\<close>

theorem caption_beyond_table_without_counter:
  "map_option (\<lambda>g. (fst (nextClick g), currentIndex (snd (nextClick g)),
       galleryCaption (els (snd (nextClick g)))))
     (gallery_of (createImageGallery (Some ex8_no_counter))) =
   Some (Some TypeError, 7, Some ''Meet Bertie'')"
  by (simp add: ex8_no_counter_def ex8_def eval_simps)

end
